theory Spec2Isabelle
  imports Main "HOL-Library.Dlist"
begin

section \<open>The view-model transaction engine of OutlineView.js\<close>

text \<open>
  The module keeps two module-level variables (\<open>activeViewModel\<close>,
  \<open>activeReadyOnlyMode\<close>) and works on mutable objects: \<open>ViewModel\<close> instances, their
  \<open>nodeMap\<close> objects, their \<open>Set\<close>s of dirty keys, and the editor. Objects are modelled
  by an explicit store: a reference is a number, each kind of object has its own heap
  (a total function from references to contents), and \<open>nextRef\<close> is the allocation
  pointer, so that \<open>new\<close>, \<open>{}\<close> and \<open>{...m}\<close> return a reference that no earlier
  allocation returned. A reference at or above \<open>nextRef\<close> names no object yet; JavaScript
  has no such reference, and a property that depends on it says that the references it is
  given are below \<open>nextRef\<close>.

  Node objects, selections, the reconciler and the editor class live in other modules.
  Of a node this module only calls \<open>isAttached()\<close> and tests \<open>instanceof TextNode\<close>; of a
  selection it only reads \<open>isDirty\<close>; of the editor it reads \<open>_textTransforms\<close>,
  \<open>_updateListeners\<close>, \<open>getCurrentViewModel()\<close> and writes \<open>_viewModel\<close>.
\<close>

subsection \<open>Data\<close>

type_synonym NodeKey = string
type_synonym node_ref = nat
type_synonym vm_ref = nat
type_synonym map_ref = nat
type_synonym set_ref = nat
type_synonym editor_ref = nat
type_synonym fn_ref = nat

text \<open>The two errors this module throws, and whatever a callback throws.\<close>

datatype error = NoActiveViewModel | ReadOnlyMode | CallbackError string

datatype 'a outcome = Returns 'a | Throws error

text \<open>\<open>Selection\<close> (OutlineSelection.js): only \<open>isDirty\<close> is read here.\<close>

record Selection =
  isDirty :: bool

text \<open>
  \<open>class ViewModel\<close>. \<open>nodeMap\<close>, \<open>dirtyNodes\<close> and \<open>dirtySubTrees\<close> hold references to a
  plain object and to two \<open>Set\<close>s; \<open>selection\<close> is \<open>null | Selection\<close>.
\<close>

record ViewModel =
  root :: node_ref
  nodeMap :: map_ref
  selection :: "Selection option"
  dirtyNodes :: set_ref
  dirtySubTrees :: set_ref
  isHistoric :: bool

text \<open>
  The fields of \<open>OutlineEditor\<close> used by this module: \<open>_viewModel\<close>, \<open>_textTransforms\<close>,
  \<open>_updateListeners\<close> (an identifier cannot start with an underscore here). The two
  registries are \<open>Set\<close>s of functions; a function is named by a reference and a \<open>Set\<close> is
  a duplicate-free sequence in insertion order.
\<close>

record OutlineEditor =
  editor_viewModel :: vm_ref
  editor_textTransforms :: "fn_ref dlist"
  editor_updateListeners :: "fn_ref dlist"

text \<open>
  The state of the program: the two module variables, the heaps, and \<open>external\<close>, the
  state owned by other modules (node objects with their parent links, the DOM).
\<close>

record 'x world =
  activeViewModel :: "vm_ref option"
  activeReadyOnlyMode :: bool
  nextRef :: nat
  viewModels :: "vm_ref \<Rightarrow> ViewModel"
  nodeMaps :: "map_ref \<Rightarrow> NodeKey \<rightharpoonup> node_ref"
  keySets :: "set_ref \<Rightarrow> NodeKey dlist"
  editors :: "editor_ref \<Rightarrow> OutlineEditor"
  external :: 'x

text \<open>
  The log is ghost state: it records, in order, each entry of a pass of this module and
  each call this module makes to a function it was given or has imported, with the events
  logged during that call nested inside. No source function reads it.
\<close>

datatype event =
    EnterApplyTextTransforms vm_ref editor_ref
  | EnterGarbageCollect vm_ref
  | ScopeCall vm_ref bool "event list"
  | CallCallback "event list"
  | CallTextTransform fn_ref node_ref "event list"
  | CallReconcile vm_ref editor_ref "event list"
  | CallListener fn_ref vm_ref "event list"

text \<open>
  A JavaScript function that may mutate the state and may throw: it takes the state and
  returns how it ended, the state it left (also when it threw) and the events it logged.
  The callbacks of \<open>draftViewModel\<close> and \<open>readViewModel\<close> are such functions. They are
  called with the constant \<open>view\<close> object, whose methods they can call anyway, so the
  argument is left out.
\<close>

type_synonym ('x, 'a) comp = "'x world \<Rightarrow> 'a outcome \<times> 'x world \<times> event list"

text \<open>
  The functions this module imports or receives. \<open>createSelection\<close> and
  \<open>reconcileViewModel\<close> are imported; \<open>textTransformFn f\<close> and \<open>updateListenerFn f\<close> give the
  behaviour of the function objects stored in the editor's registries.

  Modelled from the spec: \<open>Node.isAttached\<close> and the class test \<open>instanceof TextNode\<close>
  (OutlineNode.js is not part of the sources). The spec says that a node is attached iff
  it is reachable from the root through the parent and child relations held inside the
  node objects, independent of whether it still appears in \<open>nodeMap\<close>; so \<open>isAttached\<close>
  reads the external state only. The class of a node object never changes.
\<close>

record 'x env =
  createSelection :: "vm_ref \<Rightarrow> editor_ref \<Rightarrow> 'x world \<Rightarrow> Selection option"
  reconcileViewModel :: "vm_ref \<Rightarrow> editor_ref \<Rightarrow> ('x, unit) comp"
  textTransformFn :: "fn_ref \<Rightarrow> node_ref \<Rightarrow> ('x, unit) comp"
  updateListenerFn :: "fn_ref \<Rightarrow> vm_ref \<Rightarrow> ('x, unit) comp"
  isAttached :: "node_ref \<Rightarrow> 'x \<Rightarrow> bool"
  isTextNode :: "node_ref \<Rightarrow> bool"

subsection \<open>Sequencing\<close>

definition ret :: "'a \<Rightarrow> ('x, 'a) comp" where
  "ret a w = (Returns a, w, [])"

definition throw :: "error \<Rightarrow> ('x, 'a) comp" where
  "throw e w = (Throws e, w, [])"

text \<open>\<open>m; f\<close>: a throw of \<open>m\<close> skips \<open>f\<close> and keeps the state \<open>m\<close> left.\<close>

definition andThen :: "('x, 'a) comp \<Rightarrow> ('a \<Rightarrow> ('x, 'b) comp) \<Rightarrow> ('x, 'b) comp" where
  "andThen m f w =
     (case m w of
        (Throws e, w1, l1) \<Rightarrow> (Throws e, w1, l1)
      | (Returns a, w1, l1) \<Rightarrow> (case f a w1 of (r, w2, l2) \<Rightarrow> (r, w2, l1 @ l2)))"

definition emit :: "event \<Rightarrow> ('x, unit) comp" where
  "emit ev w = (Returns (), w, [ev])"

text \<open>A call of a function value: its events are logged as one event of the caller.\<close>

definition logged :: "(event list \<Rightarrow> event) \<Rightarrow> ('x, 'a) comp \<Rightarrow> ('x, 'a) comp" where
  "logged ev m w = (case m w of (r, w1, l) \<Rightarrow> (r, w1, [ev l]))"

text \<open>\<open>Array.from(set)\<close>: the elements of a \<open>Set\<close> in insertion order.\<close>

definition Array_from :: "'a dlist \<Rightarrow> 'a list" where
  "Array_from s = list_of_dlist s"

text \<open>\<open>set.add(k)\<close>: a new element goes to the end, a present one changes nothing.\<close>

definition Set_add :: "'a \<Rightarrow> 'a dlist \<Rightarrow> 'a dlist" where
  "Set_add k s = (if Dlist.member s k then s else Dlist (list_of_dlist s @ [k]))"

subsection \<open>The active scope\<close>

text \<open>
  Modelled from the spec: \<open>invariant\<close> (OutlineUtils.js is not part of the sources) throws
  when its condition is false, here the read-only violation.
\<close>

definition shouldErrorOnReadOnly :: "('x, unit) comp" where
  "shouldErrorOnReadOnly w =
     (if \<not> activeReadyOnlyMode w then ret () w else throw ReadOnlyMode w)"

definition getActiveViewModel :: "('x, vm_ref) comp" where
  "getActiveViewModel w =
     (case activeViewModel w of
        None \<Rightarrow> throw NoActiveViewModel w
      | Some viewModel \<Rightarrow> ret viewModel w)"


definition set_selection :: "vm_ref \<Rightarrow> Selection option \<Rightarrow> 'x world \<Rightarrow> 'x world" where
  "set_selection viewModel sel w =
     w\<lparr>viewModels := (viewModels w)(viewModel := (viewModels w viewModel)\<lparr>selection := sel\<rparr>)\<rparr>"


definition callCallbackWithViewModelScope ::
  "('x, unit) comp \<Rightarrow> vm_ref \<Rightarrow> editor_ref \<Rightarrow> bool \<Rightarrow> ('x, unit) comp" where
  "callCallbackWithViewModelScope callbackFn viewModel editor readOnly w =
     (let previousActiveViewModel = activeViewModel w;
          previousReadyOnlyMode = activeReadyOnlyMode w;
          w1 = w\<lparr>activeViewModel := Some viewModel, activeReadyOnlyMode := readOnly\<rparr>
      in case logged (ScopeCall viewModel readOnly) callbackFn w1 of
           (Throws e, w2, l) \<Rightarrow> (Throws e, w2, l)
         | (Returns u, w2, l) \<Rightarrow>
             (Returns (),
              w2\<lparr>activeViewModel := previousActiveViewModel,
                 activeReadyOnlyMode := previousReadyOnlyMode\<rparr>,
              l))"

definition readViewModel :: "vm_ref \<Rightarrow> ('x, unit) comp \<Rightarrow> editor_ref \<Rightarrow> ('x, unit) comp" where
  "readViewModel viewModel callbackFn editor =
     callCallbackWithViewModelScope callbackFn viewModel editor True"

subsection \<open>The snapshot\<close>

text \<open>\<open>{}\<close>, \<open>{...m}\<close> and \<open>new Set()\<close>: allocation of a plain object and of a \<open>Set\<close>.\<close>

definition new_object :: "(NodeKey \<rightharpoonup> node_ref) \<Rightarrow> 'x world \<Rightarrow> map_ref \<times> 'x world" where
  "new_object entries w =
     (nextRef w, w\<lparr>nextRef := Suc (nextRef w), nodeMaps := (nodeMaps w)(nextRef w := entries)\<rparr>)"

definition new_Set :: "'x world \<Rightarrow> set_ref \<times> 'x world" where
  "new_Set w =
     (nextRef w, w\<lparr>nextRef := Suc (nextRef w), keySets := (keySets w)(nextRef w := Dlist.empty)\<rparr>)"

text \<open>\<open>new ViewModel(root)\<close>: the instance, then the constructor's assignments in order.\<close>

definition new_ViewModel :: "node_ref \<Rightarrow> 'x world \<Rightarrow> vm_ref \<times> 'x world" where
  "new_ViewModel r w =
     (let this = nextRef w;
          w0 = w\<lparr>nextRef := Suc (nextRef w)\<rparr>;
          (m, w1) = new_object Map.empty w0;
          (dn, w2) = new_Set w1;
          (ds, w3) = new_Set w2
      in (this,
          w3\<lparr>viewModels := (viewModels w3)(this :=
               \<lparr>root = r, nodeMap = m, selection = None, dirtyNodes = dn,
                dirtySubTrees = ds, isHistoric = False\<rparr>)\<rparr>))"

definition cloneViewModel :: "vm_ref \<Rightarrow> 'x world \<Rightarrow> vm_ref \<times> 'x world" where
  "cloneViewModel current w =
     (let (draft, w1) = new_ViewModel (root (viewModels w current)) w;
          (m, w2) = new_object (nodeMaps w1 (nodeMap (viewModels w1 current))) w1
      in (draft,
          w2\<lparr>viewModels := (viewModels w2)(draft := (viewModels w2 draft)\<lparr>nodeMap := m\<rparr>)\<rparr>))"

definition hasDirtyNodes :: "vm_ref \<Rightarrow> 'x world \<Rightarrow> bool" where
  "hasDirtyNodes this w = (Dlist.length (keySets w (dirtyNodes (viewModels w this))) > 0)"

text \<open>\<open>getDirtyNodes\<close>: the dirty keys that still resolve in \<open>nodeMap\<close>, as nodes.\<close>

function getDirtyNodes_loop ::
  "(NodeKey \<rightharpoonup> node_ref) \<Rightarrow> NodeKey list \<Rightarrow> nat \<Rightarrow> node_ref list \<Rightarrow> node_ref list" where
  "getDirtyNodes_loop nodeMapObj dirtyKeys i nodes =
     (if i < length dirtyKeys then
        (case nodeMapObj (dirtyKeys ! i) of
           None \<Rightarrow> getDirtyNodes_loop nodeMapObj dirtyKeys (Suc i) nodes
         | Some dirtyNode \<Rightarrow> getDirtyNodes_loop nodeMapObj dirtyKeys (Suc i) (nodes @ [dirtyNode]))
      else nodes)"
  by pat_completeness auto
termination
  by (relation "measure (\<lambda>(nodeMapObj, dirtyKeys, i, nodes). length dirtyKeys - i)") auto

definition getDirtyNodes :: "vm_ref \<Rightarrow> 'x world \<Rightarrow> node_ref list" where
  "getDirtyNodes this w =
     getDirtyNodes_loop (nodeMaps w (nodeMap (viewModels w this)))
       (Array_from (keySets w (dirtyNodes (viewModels w this)))) 0 []"

subsection \<open>The transform pipeline\<close>

text \<open>The inner loop: \<open>for (let i = 0; i < textTransforms.length; i++) textTransforms[i](node, view)\<close>.\<close>

function textTransforms_loop ::
  "'x env \<Rightarrow> fn_ref list \<Rightarrow> node_ref \<Rightarrow> nat \<Rightarrow> ('x, unit) comp" where
  "textTransforms_loop env textTransforms node i w =
     (if i < length textTransforms then
        (case logged (CallTextTransform (textTransforms ! i) node)
                (textTransformFn env (textTransforms ! i) node) w of
           (Throws e, w1, l1) \<Rightarrow> (Throws e, w1, l1)
         | (Returns u, w1, l1) \<Rightarrow>
             (case textTransforms_loop env textTransforms node (Suc i) w1 of
                (r, w2, l2) \<Rightarrow> (r, w2, l1 @ l2)))
      else (Returns (), w, []))"
  by pat_completeness auto
termination
  by (relation "measure (\<lambda>(env, textTransforms, node, i, w). length textTransforms - i)") auto

text \<open>
  The outer loop over the array of dirty keys. \<open>nodeMapRef\<close> is the object that the
  local variable \<open>nodeMap\<close> refers to; it is read afresh at every key.
\<close>

function applyTextTransforms_loop ::
  "'x env \<Rightarrow> map_ref \<Rightarrow> NodeKey list \<Rightarrow> fn_ref list \<Rightarrow> nat \<Rightarrow> ('x, unit) comp" where
  "applyTextTransforms_loop env nodeMapRef dirtyKeys textTransforms s w =
     (if s < length dirtyKeys then
        (let nodeKey = dirtyKeys ! s;
             node = nodeMaps w nodeMapRef nodeKey
         in case (case node of
                    None \<Rightarrow> (Returns (), w, [])
                  | Some n \<Rightarrow>
                      if isAttached env n (external w) then
                        (if isTextNode env n then textTransforms_loop env textTransforms n 0 w
                         else (Returns (), w, []))
                      else (Returns (), w, [])) of
              (Throws e, w1, l1) \<Rightarrow> (Throws e, w1, l1)
            | (Returns u, w1, l1) \<Rightarrow>
                (case applyTextTransforms_loop env nodeMapRef dirtyKeys textTransforms (Suc s) w1 of
                   (r, w2, l2) \<Rightarrow> (r, w2, l1 @ l2)))
      else (Returns (), w, []))"
  by pat_completeness auto
termination
  by (relation "measure (\<lambda>(env, nodeMapRef, dirtyKeys, textTransforms, s, w). length dirtyKeys - s)")
     auto

definition applyTextTransforms :: "'x env \<Rightarrow> vm_ref \<Rightarrow> editor_ref \<Rightarrow> ('x, unit) comp" where
  "applyTextTransforms env viewModel editor =
     andThen (emit (EnterApplyTextTransforms viewModel editor)) (\<lambda>_ w.
       let textTransformsSet = editor_textTransforms (editors w editor)
       in if Dlist.length textTransformsSet > 0 then
            (let nodeMapRef = nodeMap (viewModels w viewModel);
                 dirtyKeys = Array_from (keySets w (dirtyNodes (viewModels w viewModel)));
                 textTransforms = Array_from textTransformsSet
             in applyTextTransforms_loop env nodeMapRef dirtyKeys textTransforms 0 w)
          else ret () w)"

subsection \<open>The collector\<close>

text \<open>\<open>delete nodeMap[nodeKey]\<close> on the object \<open>nodeMapRef\<close>.\<close>

definition delete_key :: "map_ref \<Rightarrow> NodeKey \<Rightarrow> 'x world \<Rightarrow> 'x world" where
  "delete_key nodeMapRef nodeKey w =
     w\<lparr>nodeMaps := (nodeMaps w)(nodeMapRef := (nodeMaps w nodeMapRef)(nodeKey := None))\<rparr>"

function garbageCollect_loop ::
  "'x env \<Rightarrow> map_ref \<Rightarrow> NodeKey list \<Rightarrow> nat \<Rightarrow> 'x world \<Rightarrow> 'x world" where
  "garbageCollect_loop env nodeMapRef dirtyKeys s w =
     (if s < length dirtyKeys then
        (let nodeKey = dirtyKeys ! s;
             node = nodeMaps w nodeMapRef nodeKey
         in garbageCollect_loop env nodeMapRef dirtyKeys (Suc s)
              (case node of
                 None \<Rightarrow> w
               | Some n \<Rightarrow>
                   if \<not> isAttached env n (external w) then delete_key nodeMapRef nodeKey w
                   else w))
      else w)"
  by pat_completeness auto
termination
  by (relation "measure (\<lambda>(env, nodeMapRef, dirtyKeys, s, w). length dirtyKeys - s)") auto

definition garbageCollectDetachedNodes :: "'x env \<Rightarrow> vm_ref \<Rightarrow> ('x, unit) comp" where
  "garbageCollectDetachedNodes env viewModel =
     andThen (emit (EnterGarbageCollect viewModel)) (\<lambda>_ w.
       let dirtyKeys = Array_from (keySets w (dirtyNodes (viewModels w viewModel)));
           nodeMapRef = nodeMap (viewModels w viewModel)
       in ret () (garbageCollect_loop env nodeMapRef dirtyKeys 0 w))"

subsection \<open>The transaction runner\<close>

text \<open>
  Modelled from the spec: \<open>OutlineEditor.getCurrentViewModel\<close> (OutlineEditor.js is not part
  of the sources). The spec says that the editor holds the single current-snapshot slot,
  which this module reads and replaces; \<open>updateViewModel\<close> writes it as \<open>_viewModel\<close>.
\<close>

definition getCurrentViewModel :: "editor_ref \<Rightarrow> 'x world \<Rightarrow> vm_ref" where
  "getCurrentViewModel editor w = editor_viewModel (editors w editor)"

definition viewModelHasDirtySelection :: "vm_ref \<Rightarrow> editor_ref \<Rightarrow> 'x world \<Rightarrow> bool" where
  "viewModelHasDirtySelection viewModel editor w =
     (let sel = selection (viewModels w viewModel);
          currentSelection = selection (viewModels w (getCurrentViewModel editor w))
      in if (currentSelection \<noteq> None \<and> sel = None) \<or> (currentSelection = None \<and> sel \<noteq> None)
         then True
         else (case sel of None \<Rightarrow> False | Some s \<Rightarrow> isDirty s))"

definition draftViewModel ::
  "'x env \<Rightarrow> vm_ref \<Rightarrow> ('x, unit) comp \<Rightarrow> editor_ref \<Rightarrow> ('x, vm_ref) comp" where
  "draftViewModel env currentViewModel callbackFn editor w =
     (let hasActiveViewModel = (activeViewModel w \<noteq> None)
      in andThen
           (if hasActiveViewModel then getActiveViewModel
            else (\<lambda>w. case cloneViewModel currentViewModel w of (draft, w1) \<Rightarrow> ret draft w1))
           (\<lambda>viewModel.
              andThen
                (\<lambda>w. ret () (set_selection viewModel (createSelection env viewModel editor w) w))
                (\<lambda>_. andThen
                   (callCallbackWithViewModelScope
                      (andThen (logged CallCallback callbackFn) (\<lambda>_ w.
                         if hasDirtyNodes viewModel w then
                           andThen (applyTextTransforms env viewModel editor)
                             (\<lambda>_. garbageCollectDetachedNodes env viewModel) w
                         else ret () w))
                      viewModel editor False)
                   (\<lambda>_ w.
                      let canUseExistingModel =
                            \<not> hasDirtyNodes viewModel w \<and>
                            \<not> viewModelHasDirtySelection viewModel editor w
                      in ret (if canUseExistingModel then currentViewModel else viewModel) w)))
           w)"

subsection \<open>The commit notifier\<close>

function triggerOnChange_loop :: "'x env \<Rightarrow> fn_ref list \<Rightarrow> vm_ref \<Rightarrow> nat \<Rightarrow> ('x, unit) comp" where
  "triggerOnChange_loop env listeners viewModel i w =
     (if i < length listeners then
        (case logged (CallListener (listeners ! i) viewModel)
                (updateListenerFn env (listeners ! i) viewModel) w of
           (Throws e, w1, l1) \<Rightarrow> (Throws e, w1, l1)
         | (Returns u, w1, l1) \<Rightarrow>
             (case triggerOnChange_loop env listeners viewModel (Suc i) w1 of
                (r, w2, l2) \<Rightarrow> (r, w2, l1 @ l2)))
      else (Returns (), w, []))"
  by pat_completeness auto
termination
  by (relation "measure (\<lambda>(env, listeners, viewModel, i, w). length listeners - i)") auto

definition triggerOnChange :: "'x env \<Rightarrow> editor_ref \<Rightarrow> vm_ref \<Rightarrow> ('x, unit) comp" where
  "triggerOnChange env editor viewModel w =
     (let listeners = Array_from (editor_updateListeners (editors w editor))
      in triggerOnChange_loop env listeners viewModel 0 w)"

definition set_editor_viewModel :: "editor_ref \<Rightarrow> vm_ref \<Rightarrow> 'x world \<Rightarrow> 'x world" where
  "set_editor_viewModel editor viewModel w =
     w\<lparr>editors := (editors w)(editor := (editors w editor)\<lparr>editor_viewModel := viewModel\<rparr>)\<rparr>"

definition updateViewModel :: "'x env \<Rightarrow> vm_ref \<Rightarrow> editor_ref \<Rightarrow> ('x, unit) comp" where
  "updateViewModel env viewModel editor w =
     (let previousActiveViewModel = activeViewModel w
      in andThen
           (\<lambda>w. ret () (w\<lparr>activeViewModel := Some viewModel\<rparr>))
           (\<lambda>_. andThen (logged (CallReconcile viewModel editor)
                            (reconcileViewModel env viewModel editor))
           (\<lambda>_. andThen (\<lambda>w. ret () (w\<lparr>activeViewModel := previousActiveViewModel\<rparr>))
           (\<lambda>_. andThen (\<lambda>w. ret () (set_editor_viewModel editor viewModel w))
           (\<lambda>_. triggerOnChange env editor viewModel))))
           w)"

section \<open>Notions used to state the properties\<close>

subsection \<open>A mutation helper\<close>

text \<open>
  Modelled from the spec: the mutation helpers of OutlineNode.js are not part of the
  sources. The spec says that a helper that mutates a node asserts that the scope is
  writable and that the mutation marks the node dirty in the active snapshot. This is the
  helper in its simplest form: it does only that.
\<close>

definition markNodeAsDirty :: "NodeKey \<Rightarrow> ('x, unit) comp" where
  "markNodeAsDirty key =
     andThen shouldErrorOnReadOnly (\<lambda>u.
     andThen getActiveViewModel (\<lambda>viewModel w.
       ret () (w\<lparr>keySets := (keySets w)(dirtyNodes (viewModels w viewModel) :=
                  Set_add key (keySets w (dirtyNodes (viewModels w viewModel))))\<rparr>)))"

fun markNodesAsDirty :: "NodeKey list \<Rightarrow> ('x, unit) comp" where
  "markNodesAsDirty [] = ret ()"
| "markNodesAsDirty (key # keys) = andThen (markNodeAsDirty key) (\<lambda>u. markNodesAsDirty keys)"

subsection \<open>The phases of a transaction\<close>

text \<open>
  The working snapshot of a call of \<open>draftViewModel\<close>: the active snapshot when a scope is
  active, the fork of \<open>currentViewModel\<close> otherwise.
\<close>

definition draft_working :: "vm_ref \<Rightarrow> 'x world \<Rightarrow> vm_ref" where
  "draft_working currentViewModel w =
     (case activeViewModel w of
        Some active \<Rightarrow> active
      | None \<Rightarrow> fst (cloneViewModel currentViewModel w))"

text \<open>
  The state in which the mutation callback starts: the working snapshot exists, carries the
  newly created selection and is the active snapshot of a writable scope.
\<close>

definition draft_entry :: "'x env \<Rightarrow> vm_ref \<Rightarrow> editor_ref \<Rightarrow> 'x world \<Rightarrow> 'x world" where
  "draft_entry env currentViewModel editor w =
     (let viewModel = draft_working currentViewModel w;
          w1 = (case activeViewModel w of
                  Some active \<Rightarrow> w
                | None \<Rightarrow> snd (cloneViewModel currentViewModel w))
      in (set_selection viewModel (createSelection env viewModel editor w1) w1)
           \<lparr>activeViewModel := Some viewModel, activeReadyOnlyMode := False\<rparr>)"

text \<open>Leaving the scope of a call that started in \<open>w\<close>, from the state \<open>w'\<close>.\<close>

definition draft_exit :: "'x world \<Rightarrow> 'x world \<Rightarrow> 'x world" where
  "draft_exit w w' =
     w'\<lparr>activeViewModel := activeViewModel w, activeReadyOnlyMode := activeReadyOnlyMode w\<rparr>"

text \<open>
  Selection dirtiness in the words of the spec: the selection of \<open>viewModel\<close> is dirty
  relative to the one of \<open>other\<close> when one of the two snapshots has a selection and the other
  has none, or both have one and the selection of \<open>viewModel\<close> reports \<open>isDirty\<close>.
\<close>

definition selectionDirtyAgainst :: "vm_ref \<Rightarrow> vm_ref \<Rightarrow> 'x world \<Rightarrow> bool" where
  "selectionDirtyAgainst viewModel other w =
     (case (selection (viewModels w viewModel), selection (viewModels w other)) of
        (None, None) \<Rightarrow> False
      | (None, Some old) \<Rightarrow> True
      | (Some new, None) \<Rightarrow> True
      | (Some new, Some old) \<Rightarrow> isDirty new)"

text \<open>
  The acceptance condition: a dirty node, or a selection that is dirty relative to the
  selection of the editor's current snapshot.
\<close>

definition accepted :: "vm_ref \<Rightarrow> editor_ref \<Rightarrow> 'x world \<Rightarrow> bool" where
  "accepted viewModel editor w =
     (hasDirtyNodes viewModel w \<or>
      selectionDirtyAgainst viewModel (getCurrentViewModel editor w) w)"

subsection \<open>Functions that leave the snapshots alone\<close>



subsection \<open>The log\<close>

text \<open>An event without the events nested in it.\<close>

fun outline :: "event \<Rightarrow> event" where
  "outline (ScopeCall viewModel readOnly l) = ScopeCall viewModel readOnly []"
| "outline (CallCallback l) = CallCallback []"
| "outline (CallTextTransform f node l) = CallTextTransform f node []"
| "outline (CallReconcile viewModel editor l) = CallReconcile viewModel editor []"
| "outline (CallListener f viewModel l) = CallListener f viewModel []"
| "outline ev = ev"

fun isPassEntry :: "event \<Rightarrow> bool" where
  "isPassEntry (EnterApplyTextTransforms viewModel editor) = True"
| "isPassEntry (EnterGarbageCollect viewModel) = True"
| "isPassEntry ev = False"

subsection \<open>The transform pipeline and the listener fan-out in the words of the spec\<close>

text \<open>Every function of a fixed sequence, in its order, once, on one node.\<close>

fun runTransformsOn :: "'x env \<Rightarrow> fn_ref list \<Rightarrow> node_ref \<Rightarrow> ('x, unit) comp" where
  "runTransformsOn env [] node = ret ()"
| "runTransformsOn env (f # fs) node =
     andThen (logged (CallTextTransform f node) (textTransformFn env f node))
       (\<lambda>u. runTransformsOn env fs node)"

text \<open>
  The node that a dirty key stands for when the key is visited, if it is to be
  transformed: the key resolves in the node map, the node is attached and is a text node.
\<close>

definition transformTarget :: "'x env \<Rightarrow> map_ref \<Rightarrow> NodeKey \<Rightarrow> 'x world \<Rightarrow> node_ref option" where
  "transformTarget env nodeMapRef key w =
     (case nodeMaps w nodeMapRef key of
        None \<Rightarrow> None
      | Some node \<Rightarrow>
          if isAttached env node (external w) \<and> isTextNode env node then Some node else None)"

text \<open>The keys of a fixed sequence, one after the other; the others are skipped.\<close>

fun visitDirtyKeys ::
  "'x env \<Rightarrow> map_ref \<Rightarrow> fn_ref list \<Rightarrow> NodeKey list \<Rightarrow> ('x, unit) comp" where
  "visitDirtyKeys env nodeMapRef fs [] = ret ()"
| "visitDirtyKeys env nodeMapRef fs (key # keys) =
     andThen
       (\<lambda>w. case transformTarget env nodeMapRef key w of
              None \<Rightarrow> ret () w
            | Some node \<Rightarrow> runTransformsOn env fs node w)
       (\<lambda>u. visitDirtyKeys env nodeMapRef fs keys)"

text \<open>The pipeline: both sequences and the node map are taken at the start of the pass.\<close>

definition transformPipeline :: "'x env \<Rightarrow> vm_ref \<Rightarrow> editor_ref \<Rightarrow> ('x, unit) comp" where
  "transformPipeline env viewModel editor w =
     andThen (emit (EnterApplyTextTransforms viewModel editor))
       (\<lambda>u. visitDirtyKeys env (nodeMap (viewModels w viewModel))
              (Array_from (editor_textTransforms (editors w editor)))
              (Array_from (keySets w (dirtyNodes (viewModels w viewModel)))))
       w"



text \<open>Every listener of a fixed sequence, in its order, once.\<close>

fun notifyListeners :: "'x env \<Rightarrow> fn_ref list \<Rightarrow> vm_ref \<Rightarrow> ('x, unit) comp" where
  "notifyListeners env [] viewModel = ret ()"
| "notifyListeners env (f # fs) viewModel =
     andThen (logged (CallListener f viewModel) (updateListenerFn env f viewModel))
       (\<lambda>u. notifyListeners env fs viewModel)"

subsection \<open>A sample environment and sample states\<close>

text \<open>
  In the sample environment the external state is the list of attached nodes, nodes
  below 100 are text nodes, no selection is found, and the reconciler, the transforms and
  the listeners do nothing.
\<close>

definition sampleEnv :: "(node_ref list) env" where
  "sampleEnv =
     \<lparr>createSelection = (\<lambda>viewModel editor w. None),
      reconcileViewModel = (\<lambda>viewModel editor. ret ()),
      textTransformFn = (\<lambda>f node. ret ()),
      updateListenerFn = (\<lambda>f viewModel. ret ()),
      isAttached = (\<lambda>node attached. node \<in> set attached),
      isTextNode = (\<lambda>node. node < 100)\<rparr>"

text \<open>
  One editor (reference 0) whose current snapshot is the \<open>ViewModel\<close> 2 with node map 3 and
  the two sets 4 and 5. The node map holds the keys a, b and c; the root (node 10) and the
  nodes of b and c are attached, the node of a is not. The transforms 7 and 8 and the
  listener 5 are registered. No scope is active.
\<close>

definition sampleWorld :: "(node_ref list) world" where
  "sampleWorld =
     \<lparr>activeViewModel = None, activeReadyOnlyMode = False, nextRef = 6,
      viewModels = (\<lambda>r. \<lparr>root = 10, nodeMap = 3, selection = None, dirtyNodes = 4,
                           dirtySubTrees = 5, isHistoric = False\<rparr>),
      nodeMaps = (\<lambda>r. [''a'' \<mapsto> 11, ''b'' \<mapsto> 12, ''c'' \<mapsto> 13]),
      keySets = (\<lambda>r. Dlist.empty),
      editors = (\<lambda>r. \<lparr>editor_viewModel = 2, editor_textTransforms = Dlist [7, 8],
                        editor_updateListeners = Dlist [5]\<rparr>),
      external = [10, 12, 13]\<rparr>"

text \<open>The same state with the keys a and b marked dirty in snapshot 2.\<close>

definition dirtyWorld :: "(node_ref list) world" where
  "dirtyWorld = sampleWorld\<lparr>keySets := (keySets sampleWorld)(4 := Dlist [''a'', ''b''])\<rparr>"

text \<open>The sample state after a fork of snapshot 2: the fork is the \<open>ViewModel\<close> 6.\<close>

definition forkWorld :: "(node_ref list) world" where
  "forkWorld = snd (cloneViewModel 2 sampleWorld)"

text \<open>
  The sample state with a second snapshot 12 that has no selection, while the editor's
  current snapshot 2 has a selection that is not dirty.
\<close>

definition staleWorld :: "(node_ref list) world" where
  "staleWorld =
     sampleWorld\<lparr>nextRef := 16,
       viewModels := (viewModels sampleWorld)
         (2 := (viewModels sampleWorld 2)\<lparr>selection := Some \<lparr>isDirty = False\<rparr>\<rparr>,
          12 := \<lparr>root = 10, nodeMap = 13, selection = None, dirtyNodes = 14,
                 dirtySubTrees = 15, isHistoric = False\<rparr>)\<rparr>"

text \<open>The dirty state inside a writable scope on snapshot 2.\<close>

definition transformWorld :: "(node_ref list) world" where
  "transformWorld = dirtyWorld\<lparr>activeViewModel := Some 2\<rparr>"

text \<open>
  An environment in which the transform 7 marks the key c dirty and registers the
  transform 9 on the editor 0, and the listener 5 registers the listener 6.
\<close>

definition registerTransform :: "editor_ref \<Rightarrow> fn_ref \<Rightarrow> 'x world \<Rightarrow> 'x world" where
  "registerTransform editor f w =
     w\<lparr>editors := (editors w)(editor :=
        (editors w editor)\<lparr>editor_textTransforms :=
           Set_add f (editor_textTransforms (editors w editor))\<rparr>)\<rparr>"

definition registerListener :: "editor_ref \<Rightarrow> fn_ref \<Rightarrow> 'x world \<Rightarrow> 'x world" where
  "registerListener editor f w =
     w\<lparr>editors := (editors w)(editor :=
        (editors w editor)\<lparr>editor_updateListeners :=
           Set_add f (editor_updateListeners (editors w editor))\<rparr>)\<rparr>"

definition busyEnv :: "(node_ref list) env" where
  "busyEnv =
     sampleEnv\<lparr>textTransformFn := (\<lambda>f node.
        if f = 7 then andThen (markNodeAsDirty ''c'') (\<lambda>u w. ret () (registerTransform 0 9 w))
        else ret ()),
       updateListenerFn := (\<lambda>f viewModel.
        if f = 5 then (\<lambda>w. ret () (registerListener 0 6 w)) else ret ())\<rparr>"

text \<open>A callback that throws at once.\<close>

definition throwingCallback :: "('x, unit) comp" where
  "throwingCallback = throw (CallbackError ''boom'')"

section \<open>Properties\<close>

subsection \<open>Basic facts\<close>

declare textTransforms_loop.simps [simp del]
declare applyTextTransforms_loop.simps [simp del]
declare garbageCollect_loop.simps [simp del]
declare triggerOnChange_loop.simps [simp del]
declare getDirtyNodes_loop.simps [simp del]


lemma Array_from_Dlist: "Array_from (Dlist xs) = remdups xs"
  by (simp add: Array_from_def)


lemma length_Array_from: "length (Array_from s) = Dlist.length s"
  by (simp add: Array_from_def Dlist.length_def)

subsection \<open>The active scope\<close>

lemma callCallbackWithViewModelScope_cases:
  "callCallbackWithViewModelScope callbackFn viewModel editor readOnly w =
     (case callbackFn (w\<lparr>activeViewModel := Some viewModel, activeReadyOnlyMode := readOnly\<rparr>) of
        (Throws e, w2, l) \<Rightarrow> (Throws e, w2, [ScopeCall viewModel readOnly l])
      | (Returns u, w2, l) \<Rightarrow>
          (Returns (),
           w2\<lparr>activeViewModel := activeViewModel w, activeReadyOnlyMode := activeReadyOnlyMode w\<rparr>,
           [ScopeCall viewModel readOnly l]))"
  by (simp add: callCallbackWithViewModelScope_def logged_def Let_def
        split: prod.splits outcome.splits)

text \<open>
  C1, as the code has it. When \<open>callCallbackWithViewModelScope\<close> returns, the active
  snapshot and the read-only flag are the ones from before the call. When the callback
  throws, the call throws the same error and the state is the one the callback left:
  nothing is restored.
\<close>

theorem scope_restored_on_return:
  "(callCallbackWithViewModelScope callbackFn viewModel editor readOnly w = (Returns u, w', l) \<longrightarrow>
      activeViewModel w' = activeViewModel w \<and> activeReadyOnlyMode w' = activeReadyOnlyMode w) \<and>
   (callbackFn (w\<lparr>activeViewModel := Some viewModel, activeReadyOnlyMode := readOnly\<rparr>) =
      (Throws e, wt, lt) \<longrightarrow>
      callCallbackWithViewModelScope callbackFn viewModel editor readOnly w =
        (Throws e, wt, [ScopeCall viewModel readOnly lt]))"
  by (auto simp: callCallbackWithViewModelScope_cases split: prod.splits outcome.splits)

lemma sample_scope:
  "callCallbackWithViewModelScope (ret ()) 6 0 True transformWorld =
     (Returns (), transformWorld, [ScopeCall 6 True []])"
  "throwingCallback (transformWorld\<lparr>activeViewModel := Some 6, activeReadyOnlyMode := True\<rparr>) =
     (Throws (CallbackError ''boom''),
      transformWorld\<lparr>activeViewModel := Some 6, activeReadyOnlyMode := True\<rparr>, [])"
  "activeViewModel transformWorld = Some 2"
  "\<not> activeReadyOnlyMode transformWorld"
  by (simp_all add: callCallbackWithViewModelScope_cases ret_def throwingCallback_def throw_def
        transformWorld_def dirtyWorld_def sampleWorld_def)

theorem scope_restored_on_return_witness:
  "callCallbackWithViewModelScope (ret ()) 6 0 True transformWorld =
     (Returns (), transformWorld, [ScopeCall 6 True []]) \<and>
   activeViewModel transformWorld = Some 2 \<and>
   \<not> activeReadyOnlyMode transformWorld \<and>
   callCallbackWithViewModelScope throwingCallback 6 0 True transformWorld =
     (Throws (CallbackError ''boom''),
      transformWorld\<lparr>activeViewModel := Some 6, activeReadyOnlyMode := True\<rparr>,
      [ScopeCall 6 True []])"
proof -
  have t: "callCallbackWithViewModelScope throwingCallback 6 0 True transformWorld =
     (Throws (CallbackError ''boom''),
      transformWorld\<lparr>activeViewModel := Some 6, activeReadyOnlyMode := True\<rparr>,
      [ScopeCall 6 True []])"
    using scope_restored_on_return
            [of throwingCallback 6 0 True transformWorld "()" transformWorld "[]"
                "CallbackError ''boom''"
                "transformWorld\<lparr>activeViewModel := Some 6, activeReadyOnlyMode := True\<rparr>" "[]"]
          sample_scope(2)
    by blast
  show ?thesis
    by (intro conjI) (rule sample_scope(1) sample_scope(3) sample_scope(4) t)+
qed

text \<open>
  C1, as the claim has it, fails: there is no \<open>try ... finally\<close> around the call of the
  callback. With no scope active, a read scope on snapshot 2 whose callback throws
  leaves snapshot 2 active and the read-only flag set.
\<close>

theorem scope_not_restored_on_throw:
  "fst (callCallbackWithViewModelScope throwingCallback 2 0 True sampleWorld) =
     Throws (CallbackError ''boom'') \<and>
   activeViewModel (fst (snd (callCallbackWithViewModelScope throwingCallback 2 0 True sampleWorld)))
     \<noteq> activeViewModel sampleWorld \<and>
   activeReadyOnlyMode (fst (snd (callCallbackWithViewModelScope throwingCallback 2 0 True sampleWorld)))
     \<noteq> activeReadyOnlyMode sampleWorld"
  by (simp add: callCallbackWithViewModelScope_def logged_def throwingCallback_def throw_def
        sampleWorld_def)

text \<open>
  C8. A mutation helper is a function that calls \<open>shouldErrorOnReadOnly\<close> before it
  mutates anything (\<open>body\<close> is the rest of the helper). When the read-only flag is set the
  helper throws the read-only error, \<open>body\<close> is not run and the state is untouched. A
  helper called as the callback of \<open>readViewModel\<close> therefore throws, and the state it
  leaves differs from the initial one only in the two scope variables.
\<close>

theorem mutation_in_read_scope_throws:
  "(activeReadyOnlyMode w \<longrightarrow>
      shouldErrorOnReadOnly w = (Throws ReadOnlyMode, w, []) \<and>
      andThen shouldErrorOnReadOnly (\<lambda>u. body) w = (Throws ReadOnlyMode, w, [])) \<and>
   readViewModel viewModel (andThen shouldErrorOnReadOnly (\<lambda>u. body)) editor w =
     (Throws ReadOnlyMode, w\<lparr>activeViewModel := Some viewModel, activeReadyOnlyMode := True\<rparr>,
      [ScopeCall viewModel True []])"
  by (simp add: shouldErrorOnReadOnly_def andThen_def throw_def readViewModel_def
        callCallbackWithViewModelScope_def logged_def)

theorem mutation_in_read_scope_throws_witness:
  "activeReadyOnlyMode (sampleWorld\<lparr>activeReadyOnlyMode := True\<rparr>) \<and>
   andThen shouldErrorOnReadOnly (\<lambda>u. markNodeAsDirty ''a'')
     (sampleWorld\<lparr>activeReadyOnlyMode := True\<rparr>) =
     (Throws ReadOnlyMode, sampleWorld\<lparr>activeReadyOnlyMode := True\<rparr>, []) \<and>
   readViewModel 2 (andThen shouldErrorOnReadOnly (\<lambda>u. markNodeAsDirty ''a'')) 0 sampleWorld =
     (Throws ReadOnlyMode, sampleWorld\<lparr>activeViewModel := Some 2, activeReadyOnlyMode := True\<rparr>,
      [ScopeCall 2 True []])"
  using mutation_in_read_scope_throws
          [of "sampleWorld\<lparr>activeReadyOnlyMode := True\<rparr>" "markNodeAsDirty ''a''" 2 0]
        mutation_in_read_scope_throws [of sampleWorld "markNodeAsDirty ''a''" 2 0]
  by simp

subsection \<open>The collector\<close>

lemma garbageCollect_loop_effect:
  "garbageCollect_loop env m ks s w =
     w\<lparr>nodeMaps := (nodeMaps w)(m := (\<lambda>k.
         if k \<in> set (drop s ks) \<and>
            (case nodeMaps w m k of None \<Rightarrow> False | Some n \<Rightarrow> \<not> isAttached env n (external w))
         then None else nodeMaps w m k))\<rparr>"
proof (induction env m ks s w rule: garbageCollect_loop.induct)
  case (1 env m ks s w)
  show ?case
  proof (cases "s < length ks")
    case False
    then show ?thesis
      by (simp add: garbageCollect_loop.simps [of env m ks s w])
  next
    case True
    have d: "drop s ks = ks ! s # drop (Suc s) ks"
      using True by (simp add: Cons_nth_drop_Suc)
    show ?thesis
      using True
      apply (subst garbageCollect_loop.simps)
      apply (simp add: Let_def "1.IH" [OF True refl refl] d delete_key_def split: option.splits)
      apply (auto simp: fun_eq_iff delete_key_def split: option.splits)
      done
  qed
qed

lemma garbageCollectDetachedNodes_effect:
  "garbageCollectDetachedNodes env viewModel w =
     (Returns (),
      w\<lparr>nodeMaps := (nodeMaps w)(nodeMap (viewModels w viewModel) := (\<lambda>k.
          if k \<in> set (Array_from (keySets w (dirtyNodes (viewModels w viewModel)))) \<and>
             (case nodeMaps w (nodeMap (viewModels w viewModel)) k of
                None \<Rightarrow> False
              | Some n \<Rightarrow> \<not> isAttached env n (external w))
          then None else nodeMaps w (nodeMap (viewModels w viewModel)) k))\<rparr>,
      [EnterGarbageCollect viewModel])"
  by (simp add: garbageCollectDetachedNodes_def andThen_def emit_def ret_def Let_def
        garbageCollect_loop_effect)




subsection \<open>Forking a snapshot\<close>

lemma cloneViewModel_result:
  assumes "current < nextRef w" and "nodeMap (viewModels w current) < nextRef w"
  shows "cloneViewModel current w =
     (nextRef w,
      w\<lparr>nextRef := nextRef w + 5,
        nodeMaps := (nodeMaps w)
          (nextRef w + 1 := Map.empty,
           nextRef w + 4 := nodeMaps w (nodeMap (viewModels w current))),
        keySets := (keySets w)
          (nextRef w + 2 := Dlist.empty, nextRef w + 3 := Dlist.empty),
        viewModels := (viewModels w)(nextRef w :=
          \<lparr>root = root (viewModels w current), nodeMap = nextRef w + 4, selection = None,
           dirtyNodes = nextRef w + 2, dirtySubTrees = nextRef w + 3, isHistoric = False\<rparr>)\<rparr>)"
proof -
  have "current \<noteq> nextRef w" and "nodeMap (viewModels w current) \<noteq> Suc (nextRef w)"
    using assms by simp_all
  then show ?thesis
    by (simp add: cloneViewModel_def new_ViewModel_def new_object_def new_Set_def Let_def
          eval_nat_numeral)
qed

text \<open>
  C9. Let \<open>S\<close> be an allocated snapshot whose \<open>nodeMap\<close> object is allocated. Then
  \<open>cloneViewModel S\<close> returns a new \<open>ViewModel\<close> \<open>draft\<close> (a reference not allocated before)
  such that: its root is the root of \<open>S\<close>; its \<open>nodeMap\<close> is a new object, different from
  the one of \<open>S\<close>, with exactly the entries of the \<open>nodeMap\<close> of \<open>S\<close> (the same node
  references); its \<open>dirtyNodes\<close> and \<open>dirtySubTrees\<close> are two new, distinct, empty sets;
  its selection is \<open>null\<close> and it is not historic. \<open>S\<close> and its \<open>nodeMap\<close> are unchanged,
  and replacing the contents of either of the two node maps (adding or removing entries)
  leaves the contents of the other as they are.
\<close>

theorem cloneViewModel_fresh_shallow_copy:
  assumes "S < nextRef w" and "nodeMap (viewModels w S) < nextRef w"
  shows "case cloneViewModel S w of (draft, w') \<Rightarrow>
     nextRef w \<le> draft \<and> draft < nextRef w' \<and>
     root (viewModels w' draft) = root (viewModels w S) \<and>
     nextRef w \<le> nodeMap (viewModels w' draft) \<and>
     nodeMap (viewModels w' draft) < nextRef w' \<and>
     nodeMap (viewModels w' draft) \<noteq> nodeMap (viewModels w S) \<and>
     nodeMaps w' (nodeMap (viewModels w' draft)) = nodeMaps w (nodeMap (viewModels w S)) \<and>
     nextRef w \<le> dirtyNodes (viewModels w' draft) \<and>
     dirtyNodes (viewModels w' draft) < nextRef w' \<and>
     nextRef w \<le> dirtySubTrees (viewModels w' draft) \<and>
     dirtySubTrees (viewModels w' draft) < nextRef w' \<and>
     dirtyNodes (viewModels w' draft) \<noteq> dirtySubTrees (viewModels w' draft) \<and>
     keySets w' (dirtyNodes (viewModels w' draft)) = Dlist.empty \<and>
     keySets w' (dirtySubTrees (viewModels w' draft)) = Dlist.empty \<and>
     selection (viewModels w' draft) = None \<and>
     \<not> isHistoric (viewModels w' draft) \<and>
     viewModels w' S = viewModels w S \<and>
     nodeMaps w' (nodeMap (viewModels w' S)) = nodeMaps w (nodeMap (viewModels w S)) \<and>
     (\<forall>entries.
        nodeMaps (w'\<lparr>nodeMaps := (nodeMaps w')(nodeMap (viewModels w' draft) := entries)\<rparr>)
          (nodeMap (viewModels w' S)) = nodeMaps w (nodeMap (viewModels w S)) \<and>
        nodeMaps (w'\<lparr>nodeMaps := (nodeMaps w')(nodeMap (viewModels w' S) := entries)\<rparr>)
          (nodeMap (viewModels w' draft)) = nodeMaps w (nodeMap (viewModels w S)))"
  using assms by (simp add: cloneViewModel_result)

theorem cloneViewModel_fresh_shallow_copy_witness:
  "(2::nat) < nextRef dirtyWorld \<and> nodeMap (viewModels dirtyWorld 2) < nextRef dirtyWorld \<and>
   fst (cloneViewModel 2 dirtyWorld) = 6 \<and>
   nodeMap (viewModels (snd (cloneViewModel 2 dirtyWorld)) 6) = 10 \<and>
   nodeMap (viewModels dirtyWorld 2) = 3 \<and>
   nodeMaps (snd (cloneViewModel 2 dirtyWorld)) 10 = nodeMaps dirtyWorld 3 \<and>
   keySets (snd (cloneViewModel 2 dirtyWorld)) 4 = Dlist [''a'', ''b''] \<and>
   keySets (snd (cloneViewModel 2 dirtyWorld))
     (dirtyNodes (viewModels (snd (cloneViewModel 2 dirtyWorld)) 6)) = Dlist.empty"
proof -
  have h1: "(2::nat) < nextRef dirtyWorld"
    by (simp add: dirtyWorld_def sampleWorld_def)
  have h2: "nodeMap (viewModels dirtyWorld 2) < nextRef dirtyWorld"
    by (simp add: dirtyWorld_def sampleWorld_def)
  have c: "fst (cloneViewModel 2 dirtyWorld) = 6 \<and>
           nodeMap (viewModels (snd (cloneViewModel 2 dirtyWorld)) 6) = 10 \<and>
           nodeMap (viewModels dirtyWorld 2) = 3 \<and>
           keySets (snd (cloneViewModel 2 dirtyWorld)) 4 = Dlist [''a'', ''b'']"
    by (simp add: cloneViewModel_result [OF h1 h2]) (simp add: dirtyWorld_def sampleWorld_def)
  show ?thesis
    using h1 h2 c cloneViewModel_fresh_shallow_copy [OF h1 h2]
    by (auto simp: split_def)
qed

subsection \<open>The transaction runner\<close>

lemma viewModelHasDirtySelection_spec:
  "viewModelHasDirtySelection viewModel editor w =
     selectionDirtyAgainst viewModel (getCurrentViewModel editor w) w"
  by (simp add: viewModelHasDirtySelection_def selectionDirtyAgainst_def Let_def
        split: option.splits)

lemma cloneViewModel_activeViewModel:
  "activeViewModel (snd (cloneViewModel current w)) = activeViewModel w"
  "activeReadyOnlyMode (snd (cloneViewModel current w)) = activeReadyOnlyMode w"
  by (simp_all add: cloneViewModel_def new_ViewModel_def new_object_def new_Set_def Let_def)

text \<open>
  The body of \<open>draftViewModel\<close>, phase by phase: the callback starts in \<open>draft_entry\<close>; if
  it returns and the working snapshot has dirty nodes, the transform pipeline and then the
  collector run; the scope is left; the returned snapshot is decided in the state reached.
\<close>

lemma draftViewModel_phases:
  "draftViewModel env currentViewModel callbackFn editor w =
     (case callbackFn (draft_entry env currentViewModel editor w) of
        (Throws e, wa, la) \<Rightarrow>
          (Throws e, wa, [ScopeCall (draft_working currentViewModel w) False [CallCallback la]])
      | (Returns u, wa, la) \<Rightarrow>
          if hasDirtyNodes (draft_working currentViewModel w) wa then
            (case applyTextTransforms env (draft_working currentViewModel w) editor wa of
               (Throws e, wb, lb) \<Rightarrow>
                 (Throws e, wb,
                  [ScopeCall (draft_working currentViewModel w) False (CallCallback la # lb)])
             | (Returns u', wb, lb) \<Rightarrow>
                 (case garbageCollectDetachedNodes env (draft_working currentViewModel w) wb of
                    (r, wc, lc) \<Rightarrow>
                      (Returns (if accepted (draft_working currentViewModel w) editor (draft_exit w wc)
                                then draft_working currentViewModel w else currentViewModel),
                       draft_exit w wc,
                       [ScopeCall (draft_working currentViewModel w) False
                          (CallCallback la # lb @ lc)])))
          else
            (Returns (if accepted (draft_working currentViewModel w) editor (draft_exit w wa)
                      then draft_working currentViewModel w else currentViewModel),
             draft_exit w wa,
             [ScopeCall (draft_working currentViewModel w) False [CallCallback la]]))"
proof (cases "activeViewModel w")
  case None
  then show ?thesis
    by (simp add: draftViewModel_def draft_entry_def draft_working_def draft_exit_def
          accepted_def viewModelHasDirtySelection_spec andThen_def ret_def Let_def logged_def
          callCallbackWithViewModelScope_def set_selection_def cloneViewModel_activeViewModel
          garbageCollectDetachedNodes_effect split_def
          split: outcome.splits)
next
  case (Some a)
  then show ?thesis
    by (simp add: draftViewModel_def draft_entry_def draft_working_def draft_exit_def
          accepted_def viewModelHasDirtySelection_spec andThen_def ret_def Let_def logged_def
          callCallbackWithViewModelScope_def set_selection_def getActiveViewModel_def
          garbageCollectDetachedNodes_effect split_def
          split: outcome.splits)
qed

subsection \<open>The transform pipeline\<close>

lemma textTransforms_loop_spec:
  "textTransforms_loop env fs node i w = runTransformsOn env (drop i fs) node w"
proof (induction env fs node i w rule: textTransforms_loop.induct)
  case (1 env fs node i w)
  show ?case
  proof (cases "i < length fs")
    case False
    then show ?thesis
      by (simp add: textTransforms_loop.simps [of env fs node i w] ret_def)
  next
    case True
    have d: "drop i fs = fs ! i # drop (Suc i) fs"
      using True by (simp add: Cons_nth_drop_Suc)
    show ?thesis
      using True "1.IH"
      by (subst textTransforms_loop.simps)
         (auto simp: d andThen_def split: prod.splits outcome.splits)
  qed
qed

lemma visitDirtyKeys_no_transforms:
  "visitDirtyKeys env m [] keys w = (Returns (), w, [])"
  by (induction keys arbitrary: w)
     (auto simp: ret_def andThen_def split: option.splits)

lemma applyTextTransforms_loop_spec:
  "applyTextTransforms_loop env m keys fs s w = visitDirtyKeys env m fs (drop s keys) w"
proof (induction env m keys fs s w rule: applyTextTransforms_loop.induct)
  case (1 env m keys fs s w)
  show ?case
  proof (cases "s < length keys")
    case False
    then show ?thesis
      by (simp add: applyTextTransforms_loop.simps [of env m keys fs s w] ret_def)
  next
    case True
    have d: "drop s keys = keys ! s # drop (Suc s) keys"
      using True by (simp add: Cons_nth_drop_Suc)
    show ?thesis
      using True "1.IH"
      by (subst applyTextTransforms_loop.simps)
         (auto simp: d andThen_def ret_def Let_def transformTarget_def
            textTransforms_loop_spec
            split: prod.splits outcome.splits option.splits)
  qed
qed


lemma applyTextTransforms_spec:
  "applyTextTransforms env viewModel editor w = transformPipeline env viewModel editor w"
  by (simp add: applyTextTransforms_def transformPipeline_def andThen_def emit_def ret_def
        Let_def applyTextTransforms_loop_spec visitDirtyKeys_no_transforms
        length_Array_from [symmetric])





subsection \<open>The commit notifier\<close>

lemma triggerOnChange_loop_spec:
  "triggerOnChange_loop env fs viewModel i w = notifyListeners env (drop i fs) viewModel w"
proof (induction env fs viewModel i w rule: triggerOnChange_loop.induct)
  case (1 env fs viewModel i w)
  show ?case
  proof (cases "i < length fs")
    case False
    then show ?thesis
      by (simp add: triggerOnChange_loop.simps [of env fs viewModel i w] ret_def)
  next
    case True
    have d: "drop i fs = fs ! i # drop (Suc i) fs"
      using True by (simp add: Cons_nth_drop_Suc)
    show ?thesis
      using True "1.IH"
      by (subst triggerOnChange_loop.simps)
         (auto simp: d andThen_def split: prod.splits outcome.splits)
  qed
qed

lemma triggerOnChange_spec:
  "triggerOnChange env editor viewModel w =
     notifyListeners env (Array_from (editor_updateListeners (editors w editor))) viewModel w"
  by (simp add: triggerOnChange_def triggerOnChange_loop_spec)

lemma notifyListeners_outline:
  "notifyListeners env fs viewModel w = (Returns u, w', l) \<Longrightarrow>
     map outline l = map (\<lambda>f. CallListener f viewModel []) fs"
  by (induction fs arbitrary: w l)
     (auto simp: ret_def andThen_def logged_def split: prod.splits outcome.splits)

text \<open>
  C10. When \<open>updateViewModel\<close> returns, the reconciler has returned, and the listener
  fan-out started in a state \<open>wf\<close> in which the active snapshot is the one from before the
  call and the editor's current snapshot is the committed one. The fan-out calls the
  listeners that are registered in \<open>wf\<close>, each once, in their order, and nothing else;
  a listener registered during the fan-out is not called.
\<close>

theorem updateViewModel_restores_then_notifies:
  assumes "updateViewModel env viewModel editor w = (Returns u, w', l)"
  shows "\<exists>wr lr calls.
     reconcileViewModel env viewModel editor (w\<lparr>activeViewModel := Some viewModel\<rparr>) =
       (Returns (), wr, lr) \<and>
     (let wf = set_editor_viewModel editor viewModel (wr\<lparr>activeViewModel := activeViewModel w\<rparr>)
      in activeViewModel wf = activeViewModel w \<and>
         getCurrentViewModel editor wf = viewModel \<and>
         triggerOnChange env editor viewModel wf = (Returns (), w', calls) \<and>
         triggerOnChange env editor viewModel wf =
           notifyListeners env (Array_from (editor_updateListeners (editors wf editor)))
             viewModel wf \<and>
         l = CallReconcile viewModel editor lr # calls \<and>
         map outline calls =
           map (\<lambda>f. CallListener f viewModel [])
             (Array_from (editor_updateListeners (editors wf editor))))"
proof -
  from assms obtain wr lr calls where
      r: "reconcileViewModel env viewModel editor (w\<lparr>activeViewModel := Some viewModel\<rparr>) =
            (Returns (), wr, lr)"
    and t: "triggerOnChange env editor viewModel
              (set_editor_viewModel editor viewModel (wr\<lparr>activeViewModel := activeViewModel w\<rparr>)) =
            (Returns (), w', calls)"
    and l: "l = CallReconcile viewModel editor lr # calls"
    by (auto simp: updateViewModel_def andThen_def ret_def logged_def Let_def
          split: prod.splits outcome.splits)
  have o: "map outline calls =
           map (\<lambda>f. CallListener f viewModel [])
             (Array_from (editor_updateListeners (editors
                (set_editor_viewModel editor viewModel (wr\<lparr>activeViewModel := activeViewModel w\<rparr>))
                editor)))"
    using t notifyListeners_outline by (simp add: triggerOnChange_spec)
  show ?thesis
    using r t l o
    by (simp add: Let_def triggerOnChange_spec [symmetric])
       (simp add: set_editor_viewModel_def getCurrentViewModel_def)
qed

lemma busy_commit:
  "fst (updateViewModel busyEnv 6 0 forkWorld) = Returns ()"
  "snd (snd (updateViewModel busyEnv 6 0 forkWorld)) =
     [CallReconcile 6 0 [], CallListener 5 6 []]"
  "Array_from (editor_updateListeners
     (editors (fst (snd (updateViewModel busyEnv 6 0 forkWorld))) 0)) = [5, 6]"
  "editor_viewModel (editors (fst (snd (updateViewModel busyEnv 6 0 forkWorld))) 0) = 6"
  "activeViewModel (fst (snd (updateViewModel busyEnv 6 0 forkWorld))) = None"
  by (simp_all add: updateViewModel_def triggerOnChange_spec forkWorld_def cloneViewModel_def
        new_ViewModel_def new_object_def new_Set_def sampleWorld_def busyEnv_def sampleEnv_def
        andThen_def ret_def logged_def Let_def set_editor_viewModel_def registerListener_def
        Set_add_def Array_from_def Dlist.member_def)

theorem updateViewModel_restores_then_notifies_witness:
  "fst (updateViewModel busyEnv 6 0 forkWorld) = Returns () \<and>
   (\<exists>wr lr. reconcileViewModel busyEnv 6 0 (forkWorld\<lparr>activeViewModel := Some 6\<rparr>) =
      (Returns (), wr, lr)) \<and>
   Array_from (editor_updateListeners (editors forkWorld 0)) = [5] \<and>
   map outline (snd (snd (updateViewModel busyEnv 6 0 forkWorld))) =
     [CallReconcile 6 0 [], CallListener 5 6 []] \<and>
   Array_from (editor_updateListeners
     (editors (fst (snd (updateViewModel busyEnv 6 0 forkWorld))) 0)) = [5, 6] \<and>
   editor_viewModel (editors (fst (snd (updateViewModel busyEnv 6 0 forkWorld))) 0) = 6 \<and>
   activeViewModel (fst (snd (updateViewModel busyEnv 6 0 forkWorld))) = activeViewModel forkWorld"
proof -
  have h: "updateViewModel busyEnv 6 0 forkWorld =
             (Returns (), fst (snd (updateViewModel busyEnv 6 0 forkWorld)),
              snd (snd (updateViewModel busyEnv 6 0 forkWorld)))"
    using busy_commit(1) by (metis prod.collapse)
  have e: "\<exists>wr lr. reconcileViewModel busyEnv 6 0 (forkWorld\<lparr>activeViewModel := Some 6\<rparr>) =
             (Returns (), wr, lr)"
    using updateViewModel_restores_then_notifies [OF h] by blast
  have k: "Array_from (editor_updateListeners (editors forkWorld 0)) = [5]"
    by (simp add: forkWorld_def cloneViewModel_def new_ViewModel_def new_object_def new_Set_def
          sampleWorld_def Let_def Array_from_def)
  have o: "map outline (snd (snd (updateViewModel busyEnv 6 0 forkWorld))) =
             [CallReconcile 6 0 [], CallListener 5 6 []]"
    by (simp add: busy_commit(2))
  have a: "activeViewModel (fst (snd (updateViewModel busyEnv 6 0 forkWorld))) =
             activeViewModel forkWorld"
    by (simp add: busy_commit(5))
       (simp add: forkWorld_def cloneViewModel_def new_ViewModel_def new_object_def new_Set_def
          sampleWorld_def Let_def)
  show ?thesis
    by (intro conjI) (rule busy_commit(1) e k o busy_commit(3) busy_commit(4) a)+
qed

subsection \<open>Transactions\<close>

lemma runTransformsOn_no_pass_entry:
  "runTransformsOn env fs node w = (r, w', l) \<Longrightarrow> filter isPassEntry l = []"
  by (induction fs arbitrary: w l)
     (auto simp: ret_def andThen_def logged_def split: prod.splits outcome.splits)

lemma visitDirtyKeys_no_pass_entry:
  "visitDirtyKeys env m fs keys w = (r, w', l) \<Longrightarrow> filter isPassEntry l = []"
proof (induction keys arbitrary: w l)
  case Nil
  then show ?case by (simp add: ret_def)
next
  case (Cons key keys)
  then show ?case
    by (auto simp: ret_def andThen_def dest: runTransformsOn_no_pass_entry
          split: prod.splits outcome.splits option.splits)
qed

lemma applyTextTransforms_one_pass_entry:
  "applyTextTransforms env viewModel editor w = (r, w', l) \<Longrightarrow>
     filter isPassEntry l = [EnterApplyTextTransforms viewModel editor]"
  by (auto simp: applyTextTransforms_spec transformPipeline_def andThen_def emit_def
        dest: visitDirtyKeys_no_pass_entry split: prod.splits outcome.splits)

lemma cloneViewModel_fst: "fst (cloneViewModel current w) = nextRef w"
  by (simp add: cloneViewModel_def new_ViewModel_def new_object_def new_Set_def Let_def)

lemma draftViewModel_decision:
  assumes "draftViewModel env currentViewModel callbackFn editor w = (Returns r, w', l)"
  shows "r = (if accepted (draft_working currentViewModel w) editor w'
              then draft_working currentViewModel w else currentViewModel)"
proof -
  obtain ra wa la where
    c: "callbackFn (draft_entry env currentViewModel editor w) = (ra, wa, la)"
    by (metis prod_cases3)
  show ?thesis
    using assms c
    by (auto simp: draftViewModel_phases garbageCollectDetachedNodes_effect
          split: outcome.splits if_splits prod.splits)
qed

text \<open>
  C3. Take a call of \<open>draftViewModel\<close> that returns, and let \<open>wa\<close> be the state in which
  the mutation callback returned. If the working snapshot has dirty nodes in \<open>wa\<close>, then
  \<open>applyTextTransforms\<close> ran once from \<open>wa\<close>, \<open>garbageCollectDetachedNodes\<close> ran once from the
  state the transforms left, nothing else ran after the callback, and the pass entries
  logged after the callback are these two, in this order. If it has none, nothing ran
  after the callback. In both cases the returned snapshot is decided in the state \<open>w'\<close>
  reached after that.
\<close>

theorem draft_runs_passes_once_in_order:
  assumes "draftViewModel env currentViewModel callbackFn editor w = (Returns r, w', l)"
    and "callbackFn (draft_entry env currentViewModel editor w) = (ra, wa, la)"
  shows "\<exists>lp.
     l = [ScopeCall (draft_working currentViewModel w) False (CallCallback la # lp)] \<and>
     (hasDirtyNodes (draft_working currentViewModel w) wa \<longrightarrow>
        filter isPassEntry lp =
          [EnterApplyTextTransforms (draft_working currentViewModel w) editor,
           EnterGarbageCollect (draft_working currentViewModel w)] \<and>
        (\<exists>wb lb wc.
           applyTextTransforms env (draft_working currentViewModel w) editor wa =
             (Returns (), wb, lb) \<and>
           garbageCollectDetachedNodes env (draft_working currentViewModel w) wb =
             (Returns (), wc, [EnterGarbageCollect (draft_working currentViewModel w)]) \<and>
           lp = lb @ [EnterGarbageCollect (draft_working currentViewModel w)] \<and>
           w' = draft_exit w wc)) \<and>
     (\<not> hasDirtyNodes (draft_working currentViewModel w) wa \<longrightarrow>
        lp = [] \<and> w' = draft_exit w wa) \<and>
     r = (if accepted (draft_working currentViewModel w) editor w'
          then draft_working currentViewModel w else currentViewModel)"
proof (cases "hasDirtyNodes (draft_working currentViewModel w) wa")
  case False
  then show ?thesis
    using assms
    by (auto simp: draftViewModel_phases split: outcome.splits)
next
  case True
  obtain rb wb lb where
    t: "applyTextTransforms env (draft_working currentViewModel w) editor wa = (rb, wb, lb)"
    by (metis prod_cases3)
  obtain wc where
    g: "garbageCollectDetachedNodes env (draft_working currentViewModel w) wb =
          (Returns (), wc, [EnterGarbageCollect (draft_working currentViewModel w)])"
    by (simp add: garbageCollectDetachedNodes_effect)
  have rb: "rb = Returns ()"
    using assms True t by (auto simp: draftViewModel_phases split: outcome.splits)
  have res: "l = [ScopeCall (draft_working currentViewModel w) False
                    (CallCallback la # lb @ [EnterGarbageCollect (draft_working currentViewModel w)])]"
    "w' = draft_exit w wc"
    "r = (if accepted (draft_working currentViewModel w) editor w'
          then draft_working currentViewModel w else currentViewModel)"
    using assms True t g rb by (auto simp: draftViewModel_phases split: outcome.splits)
  have f: "filter isPassEntry (lb @ [EnterGarbageCollect (draft_working currentViewModel w)]) =
             [EnterApplyTextTransforms (draft_working currentViewModel w) editor,
              EnterGarbageCollect (draft_working currentViewModel w)]"
    using applyTextTransforms_one_pass_entry [OF t] by simp
  show ?thesis
    using True t g rb res f by auto
qed

lemmas sample_defs =
  sampleWorld_def busyEnv_def sampleEnv_def cloneViewModel_def new_ViewModel_def
  new_object_def new_Set_def set_selection_def draft_entry_def draft_working_def
  draft_exit_def accepted_def hasDirtyNodes_def selectionDirtyAgainst_def
  getCurrentViewModel_def markNodeAsDirty_def shouldErrorOnReadOnly_def
  getActiveViewModel_def registerTransform_def Set_add_def Array_from_def Dlist.member_def
  Dlist.length_def transformPipeline_def transformTarget_def andThen_def emit_def ret_def
  throw_def logged_def Let_def

lemma busy_draft:
  "fst (draftViewModel busyEnv 2 (markNodesAsDirty [''a'', ''b'']) 0 sampleWorld) = Returns 6"
  "snd (snd (draftViewModel busyEnv 2 (markNodesAsDirty [''a'', ''b'']) 0 sampleWorld)) =
     [ScopeCall 6 False
        [CallCallback [], EnterApplyTextTransforms 6 0, CallTextTransform 7 12 [],
         CallTextTransform 8 12 [], EnterGarbageCollect 6]]"
  "nodeMaps (fst (snd (draftViewModel busyEnv 2 (markNodesAsDirty [''a'', ''b'']) 0 sampleWorld)))
     10 ''a'' = None"
  "nodeMaps (fst (snd (draftViewModel busyEnv 2 (markNodesAsDirty [''a'', ''b'']) 0 sampleWorld)))
     3 ''a'' = Some 11"
  "Array_from (keySets
     (fst (snd (draftViewModel busyEnv 2 (markNodesAsDirty [''a'', ''b'']) 0 sampleWorld))) 8) =
     [''a'', ''b'', ''c'']"
  "activeViewModel
     (fst (snd (draftViewModel busyEnv 2 (markNodesAsDirty [''a'', ''b'']) 0 sampleWorld))) = None"
  by (simp_all add: draftViewModel_phases applyTextTransforms_spec
        garbageCollectDetachedNodes_effect sample_defs)

lemma busy_callback:
  "fst (markNodesAsDirty [''a'', ''b''] (draft_entry busyEnv 2 0 sampleWorld)) = Returns ()"
  "snd (snd (markNodesAsDirty [''a'', ''b''] (draft_entry busyEnv 2 0 sampleWorld))) = []"
  "hasDirtyNodes 6 (fst (snd (markNodesAsDirty [''a'', ''b''] (draft_entry busyEnv 2 0 sampleWorld))))"
  "draft_working 2 sampleWorld = 6"
  by (simp_all add: sample_defs)

lemma idle_draft:
  "fst (draftViewModel sampleEnv 2 (ret ()) 0 sampleWorld) = Returns 2"
  "snd (snd (draftViewModel sampleEnv 2 (ret ()) 0 sampleWorld)) =
     [ScopeCall 6 False [CallCallback []]]"
  "\<not> hasDirtyNodes 6 (fst (snd (draftViewModel sampleEnv 2 (ret ()) 0 sampleWorld)))"
  "\<not> selectionDirtyAgainst 6
       (getCurrentViewModel 0 (fst (snd (draftViewModel sampleEnv 2 (ret ()) 0 sampleWorld))))
       (fst (snd (draftViewModel sampleEnv 2 (ret ()) 0 sampleWorld)))"
  "ret () (draft_entry sampleEnv 2 0 sampleWorld) =
     (Returns (), draft_entry sampleEnv 2 0 sampleWorld, [])"
  "\<not> hasDirtyNodes 6 (draft_entry sampleEnv 2 0 sampleWorld)"
  by (simp_all add: draftViewModel_phases sample_defs)

theorem draft_runs_passes_once_in_order_witness:
  "fst (draftViewModel sampleEnv 2 (ret ()) 0 sampleWorld) = Returns 2 \<and>
   \<not> hasDirtyNodes 6 (draft_entry sampleEnv 2 0 sampleWorld) \<and>
   snd (snd (draftViewModel sampleEnv 2 (ret ()) 0 sampleWorld)) =
     [ScopeCall 6 False [CallCallback []]] \<and>
   fst (draftViewModel busyEnv 2 (markNodesAsDirty [''a'', ''b'']) 0 sampleWorld) = Returns 6 \<and>
   hasDirtyNodes 6 (fst (snd (markNodesAsDirty [''a'', ''b''] (draft_entry busyEnv 2 0 sampleWorld)))) \<and>
   (\<exists>lp. snd (snd (draftViewModel busyEnv 2 (markNodesAsDirty [''a'', ''b'']) 0 sampleWorld)) =
           [ScopeCall 6 False (CallCallback [] # lp)] \<and>
         filter isPassEntry lp = [EnterApplyTextTransforms 6 0, EnterGarbageCollect 6]) \<and>
   snd (snd (draftViewModel busyEnv 2 (markNodesAsDirty [''a'', ''b'']) 0 sampleWorld)) =
     [ScopeCall 6 False
        [CallCallback [], EnterApplyTextTransforms 6 0, CallTextTransform 7 12 [],
         CallTextTransform 8 12 [], EnterGarbageCollect 6]]"
proof -
  have h1: "draftViewModel busyEnv 2 (markNodesAsDirty [''a'', ''b'']) 0 sampleWorld =
     (Returns 6,
      fst (snd (draftViewModel busyEnv 2 (markNodesAsDirty [''a'', ''b'']) 0 sampleWorld)),
      snd (snd (draftViewModel busyEnv 2 (markNodesAsDirty [''a'', ''b'']) 0 sampleWorld)))"
    using busy_draft(1) by (metis prod.collapse)
  have h2: "markNodesAsDirty [''a'', ''b''] (draft_entry busyEnv 2 0 sampleWorld) =
     (Returns (),
      fst (snd (markNodesAsDirty [''a'', ''b''] (draft_entry busyEnv 2 0 sampleWorld))), [])"
    using busy_callback(1,2) by (metis prod.collapse)
  have e: "\<exists>lp. snd (snd (draftViewModel busyEnv 2 (markNodesAsDirty [''a'', ''b'']) 0 sampleWorld)) =
                  [ScopeCall 6 False (CallCallback [] # lp)] \<and>
                filter isPassEntry lp = [EnterApplyTextTransforms 6 0, EnterGarbageCollect 6]"
    using draft_runs_passes_once_in_order [OF h1 h2] busy_callback(3)
    unfolding busy_callback(4) by blast
  have i1: "draftViewModel sampleEnv 2 (ret ()) 0 sampleWorld =
     (Returns 2, fst (snd (draftViewModel sampleEnv 2 (ret ()) 0 sampleWorld)),
      snd (snd (draftViewModel sampleEnv 2 (ret ()) 0 sampleWorld)))"
    using idle_draft(1) by (metis prod.collapse)
  have i: "snd (snd (draftViewModel sampleEnv 2 (ret ()) 0 sampleWorld)) =
             [ScopeCall 6 False [CallCallback []]]"
    using draft_runs_passes_once_in_order [OF i1 idle_draft(5)] idle_draft(6)
    unfolding busy_callback(4) by blast
  show ?thesis
    by (intro conjI)
       (rule idle_draft(1) idle_draft(6) i busy_draft(1) busy_callback(3) e busy_draft(2))+
qed

text \<open>
  C2, as the code has it. A call of \<open>draftViewModel\<close> that returns, returns the working
  snapshot (the fork, or the active snapshot when the call is nested) if, in the state
  reached after the callback and the passes, the working snapshot has a dirty node or its
  selection is dirty relative to the selection of the snapshot that the editor holds as
  current; otherwise it returns \<open>currentViewModel\<close>. With no scope active and
  \<open>currentViewModel\<close> an allocated object, the working snapshot is a new object, different
  from \<open>currentViewModel\<close>.
\<close>

theorem draft_returns_working_iff_accepted:
  assumes "draftViewModel env currentViewModel callbackFn editor w = (Returns r, w', l)"
  shows "r = (if hasDirtyNodes (draft_working currentViewModel w) w' \<or>
                 selectionDirtyAgainst (draft_working currentViewModel w)
                   (getCurrentViewModel editor w') w'
              then draft_working currentViewModel w else currentViewModel) \<and>
         (activeViewModel w = None \<and> currentViewModel < nextRef w \<longrightarrow>
            nextRef w \<le> draft_working currentViewModel w \<and>
            draft_working currentViewModel w \<noteq> currentViewModel)"
  using draftViewModel_decision [OF assms]
  by (auto simp: accepted_def draft_working_def cloneViewModel_fst)

theorem draft_returns_working_iff_accepted_witness:
  "fst (draftViewModel sampleEnv 2 (ret ()) 0 sampleWorld) = Returns 2 \<and>
   \<not> hasDirtyNodes 6 (fst (snd (draftViewModel sampleEnv 2 (ret ()) 0 sampleWorld))) \<and>
   \<not> selectionDirtyAgainst 6
       (getCurrentViewModel 0 (fst (snd (draftViewModel sampleEnv 2 (ret ()) 0 sampleWorld))))
       (fst (snd (draftViewModel sampleEnv 2 (ret ()) 0 sampleWorld))) \<and>
   (2::nat) = (if hasDirtyNodes (draft_working 2 sampleWorld)
                   (fst (snd (draftViewModel sampleEnv 2 (ret ()) 0 sampleWorld))) \<or>
                 selectionDirtyAgainst (draft_working 2 sampleWorld)
                   (getCurrentViewModel 0
                      (fst (snd (draftViewModel sampleEnv 2 (ret ()) 0 sampleWorld))))
                   (fst (snd (draftViewModel sampleEnv 2 (ret ()) 0 sampleWorld)))
               then draft_working 2 sampleWorld else 2) \<and>
   fst (draftViewModel busyEnv 2 (markNodesAsDirty [''a'', ''b'']) 0 sampleWorld) = Returns 6 \<and>
   activeViewModel sampleWorld = None \<and> (2::nat) < nextRef sampleWorld \<and>
   draft_working 2 sampleWorld = 6 \<and>
   hasDirtyNodes 6
     (fst (snd (draftViewModel busyEnv 2 (markNodesAsDirty [''a'', ''b'']) 0 sampleWorld))) \<and>
   (6::nat) = (if hasDirtyNodes (draft_working 2 sampleWorld)
                   (fst (snd (draftViewModel busyEnv 2 (markNodesAsDirty [''a'', ''b'']) 0 sampleWorld))) \<or>
                 selectionDirtyAgainst (draft_working 2 sampleWorld)
                   (getCurrentViewModel 0
                      (fst (snd (draftViewModel busyEnv 2 (markNodesAsDirty [''a'', ''b'']) 0 sampleWorld))))
                   (fst (snd (draftViewModel busyEnv 2 (markNodesAsDirty [''a'', ''b'']) 0 sampleWorld)))
               then draft_working 2 sampleWorld else 2)"
proof -
  have h: "draftViewModel busyEnv 2 (markNodesAsDirty [''a'', ''b'']) 0 sampleWorld =
     (Returns 6,
      fst (snd (draftViewModel busyEnv 2 (markNodesAsDirty [''a'', ''b'']) 0 sampleWorld)),
      snd (snd (draftViewModel busyEnv 2 (markNodesAsDirty [''a'', ''b'']) 0 sampleWorld)))"
    using busy_draft(1) by (metis prod.collapse)
  have a: "activeViewModel sampleWorld = None" "(2::nat) < nextRef sampleWorld"
    by (simp_all add: sampleWorld_def)
  have d: "hasDirtyNodes 6
     (fst (snd (draftViewModel busyEnv 2 (markNodesAsDirty [''a'', ''b'']) 0 sampleWorld)))"
    by (simp add: draftViewModel_phases applyTextTransforms_spec
          garbageCollectDetachedNodes_effect sample_defs)
  have t: "(6::nat) = (if hasDirtyNodes (draft_working 2 sampleWorld)
                   (fst (snd (draftViewModel busyEnv 2 (markNodesAsDirty [''a'', ''b'']) 0 sampleWorld))) \<or>
                 selectionDirtyAgainst (draft_working 2 sampleWorld)
                   (getCurrentViewModel 0
                      (fst (snd (draftViewModel busyEnv 2 (markNodesAsDirty [''a'', ''b'']) 0 sampleWorld))))
                   (fst (snd (draftViewModel busyEnv 2 (markNodesAsDirty [''a'', ''b'']) 0 sampleWorld)))
               then draft_working 2 sampleWorld else 2)"
    using draft_returns_working_iff_accepted [OF h] by (rule conjunct1)
  have i1: "draftViewModel sampleEnv 2 (ret ()) 0 sampleWorld =
     (Returns 2, fst (snd (draftViewModel sampleEnv 2 (ret ()) 0 sampleWorld)),
      snd (snd (draftViewModel sampleEnv 2 (ret ()) 0 sampleWorld)))"
    using idle_draft(1) by (metis prod.collapse)
  have i: "(2::nat) = (if hasDirtyNodes (draft_working 2 sampleWorld)
                   (fst (snd (draftViewModel sampleEnv 2 (ret ()) 0 sampleWorld))) \<or>
                 selectionDirtyAgainst (draft_working 2 sampleWorld)
                   (getCurrentViewModel 0
                      (fst (snd (draftViewModel sampleEnv 2 (ret ()) 0 sampleWorld))))
                   (fst (snd (draftViewModel sampleEnv 2 (ret ()) 0 sampleWorld)))
               then draft_working 2 sampleWorld else 2)"
    using draft_returns_working_iff_accepted [OF i1] by (rule conjunct1)
  show ?thesis
    by (intro conjI)
       (rule idle_draft(1) idle_draft(3) idle_draft(4) i busy_draft(1) a busy_callback(4) d t)+
qed

text \<open>
  C2, as the claim has it, fails: the selection is not compared with the selection of
  \<open>currentViewModel\<close>. In \<open>staleWorld\<close> the editor's current snapshot is 2 and has a
  selection; \<open>draftViewModel\<close> is called on snapshot 12, which has none, with a callback
  that does nothing, and no selection is created. The fork 16 has no dirty node and no
  selection, as snapshot 12, and yet it is returned.
\<close>

theorem draft_selection_compared_with_editor_snapshot:
  "fst (draftViewModel sampleEnv 12 (ret ()) 0 staleWorld) = Returns 16 \<and>
   \<not> hasDirtyNodes 16 (fst (snd (draftViewModel sampleEnv 12 (ret ()) 0 staleWorld))) \<and>
   \<not> selectionDirtyAgainst 16 12 (fst (snd (draftViewModel sampleEnv 12 (ret ()) 0 staleWorld))) \<and>
   selection (viewModels (fst (snd (draftViewModel sampleEnv 12 (ret ()) 0 staleWorld))) 16) = None \<and>
   selection (viewModels (fst (snd (draftViewModel sampleEnv 12 (ret ()) 0 staleWorld))) 12) = None \<and>
   getCurrentViewModel 0 (fst (snd (draftViewModel sampleEnv 12 (ret ()) 0 staleWorld))) = 2"
  by (simp add: draftViewModel_phases staleWorld_def sample_defs)

subsection \<open>Outside any scope\<close>




subsection \<open>Nested transactions\<close>

















end
